theory Spec2Isabelle
  imports Complex_Main "HOL-Library.Word"
begin

section \<open>The metrics package of go-component-base\<close>

text \<open>
  The development embeds \<^verbatim>\<open>pkg/metrics\<close> (the file holding \<^verbatim>\<open>StartReporter\<close> and the
  file holding the metric variants and the \<^verbatim>\<open>Collector\<close>).

  Conventions of the embedding:
  \<^item> a Go \<^verbatim>\<open>float64\<close> is the rational number it denotes; the four operations used by the
    package (\<^verbatim>\<open>+\<close>, \<^verbatim>\<open>*\<close>, \<^verbatim>\<open><=\<close>, conversion to \<^verbatim>\<open>int\<close>) are the exact ones, so
    rounding, infinities and NaN are outside the model;
  \<^item> an \<^verbatim>\<open>atomic.Uint64\<close> or \<^verbatim>\<open>atomic.Int64\<close> is a \<open>64 word\<close>, whose addition wraps;
  \<^item> a method with a pointer receiver takes the struct and returns the updated struct;
    the mutexes only serialise the methods and have no counterpart;
  \<^item> a run-time panic is a value of type \<open>error\<close>.
\<close>

datatype error = IndexOutOfRange | NilMapAssignment | NilDereference

datatype MetricType = Counter | Gauge | Histogram | Summary

subsection \<open>CounterMetric\<close>

record CounterMetric =
  c_name :: string
  c_value :: "64 word"

definition NewCounter :: "string \<Rightarrow> CounterMetric" where
  "NewCounter name = \<lparr>c_name = name, c_value = 0\<rparr>"

definition CounterValue :: "CounterMetric \<Rightarrow> 64 word" where
  "CounterValue c = c_value c"

definition CounterInc :: "CounterMetric \<Rightarrow> CounterMetric" where
  "CounterInc c = c\<lparr>c_value := c_value c + 1\<rparr>"

definition CounterAdd :: "CounterMetric \<Rightarrow> 64 word \<Rightarrow> CounterMetric" where
  "CounterAdd c delta = c\<lparr>c_value := c_value c + delta\<rparr>"

definition CounterReset :: "CounterMetric \<Rightarrow> CounterMetric" where
  "CounterReset c = c\<lparr>c_value := 0\<rparr>"

subsection \<open>GaugeMetric\<close>

record GaugeMetric =
  g_name :: string
  g_value :: "64 word"

definition NewGauge :: "string \<Rightarrow> GaugeMetric" where
  "NewGauge name = \<lparr>g_name = name, g_value = 0\<rparr>"

definition GaugeValue :: "GaugeMetric \<Rightarrow> int" where
  "GaugeValue g = sint (g_value g)"

definition GaugeSet :: "GaugeMetric \<Rightarrow> 64 word \<Rightarrow> GaugeMetric" where
  "GaugeSet g v = g\<lparr>g_value := v\<rparr>"

definition GaugeAdd :: "GaugeMetric \<Rightarrow> 64 word \<Rightarrow> GaugeMetric" where
  "GaugeAdd g delta = g\<lparr>g_value := g_value g + delta\<rparr>"

definition GaugeSub :: "GaugeMetric \<Rightarrow> 64 word \<Rightarrow> GaugeMetric" where
  "GaugeSub g delta = g\<lparr>g_value := g_value g + (- delta)\<rparr>"

subsection \<open>HistogramMetric\<close>

record HistogramMetric =
  h_name :: string
  h_buckets :: "rat list"
  h_counts :: "rat list"
  h_count :: "64 word"
  h_sum :: rat

text \<open>\<^verbatim>\<open>NewHistogram\<close> sorts the boundaries and allocates one zero count per boundary.\<close>

definition NewHistogram :: "string \<Rightarrow> rat list \<Rightarrow> HistogramMetric" where
  "NewHistogram name buckets =
     \<lparr>h_name = name, h_buckets = sort buckets,
      h_counts = replicate (length buckets) 0, h_count = 0, h_sum = 0\<rparr>"

definition HistogramValue :: "HistogramMetric \<Rightarrow> rat list" where
  "HistogramValue h = h_counts h"

definition HistogramCount :: "HistogramMetric \<Rightarrow> 64 word" where
  "HistogramCount h = h_count h"

definition HistogramSum :: "HistogramMetric \<Rightarrow> rat" where
  "HistogramSum h = h_sum h"


text \<open>
  The loop \<^verbatim>\<open>for i, bucket := range h.buckets\<close> of \<^verbatim>\<open>Observe\<close>, started at index \<open>i\<close> with the
  boundaries from \<open>i\<close> on still to visit. \<^verbatim>\<open>h.counts[i]++\<close> panics when \<open>i\<close> is not an
  index of \<^verbatim>\<open>h.counts\<close>.
\<close>

fun observe_loop :: "rat \<Rightarrow> nat \<Rightarrow> rat list \<Rightarrow> rat list \<Rightarrow> error + rat list" where
  "observe_loop v i [] counts = Inr counts"
| "observe_loop v i (bucket # rest) counts =
     (if v \<le> bucket
      then (if i < length counts
            then observe_loop v (Suc i) rest (counts[i := counts ! i + 1])
            else Inl IndexOutOfRange)
      else observe_loop v (Suc i) rest counts)"

definition HistogramObserve :: "HistogramMetric \<Rightarrow> rat \<Rightarrow> error + HistogramMetric" where
  "HistogramObserve h v =
     (if length (h_buckets h) = 0 then Inr h
      else (case observe_loop v 0 (h_buckets h) (h_counts h) of
              Inl e \<Rightarrow> Inl e
            | Inr counts \<Rightarrow>
                Inr (h\<lparr>h_count := h_count h + 1, h_sum := h_sum h + v, h_counts := counts\<rparr>)))"

text \<open>A sequence of \<^verbatim>\<open>Observe\<close> calls; a panic ends it.\<close>

fun HistogramObserveAll :: "HistogramMetric \<Rightarrow> rat list \<Rightarrow> error + HistogramMetric" where
  "HistogramObserveAll h [] = Inr h"
| "HistogramObserveAll h (v # vs) =
     (case HistogramObserve h v of Inl e \<Rightarrow> Inl e | Inr h' \<Rightarrow> HistogramObserveAll h' vs)"

subsection \<open>SummaryMetric\<close>

text \<open>
  The configuration \<^verbatim>\<open>map[float64]float64\<close> (quantile to tolerance) is an association list;
  its order stands for the order in which \<^verbatim>\<open>range\<close> visits the keys.
\<close>

record SummaryMetric =
  s_name :: string
  s_quantiles :: "(rat \<times> rat) list"
  s_values :: "rat list"
  s_sum :: rat
  s_count :: "64 word"

definition NewSummary :: "string \<Rightarrow> (rat \<times> rat) list \<Rightarrow> SummaryMetric" where
  "NewSummary name quantiles =
     \<lparr>s_name = name, s_quantiles = quantiles, s_values = [], s_sum = 0, s_count = 0\<rparr>"

definition SummaryValue :: "SummaryMetric \<Rightarrow> rat list" where
  "SummaryValue s = s_values s"

definition SummaryObserve :: "SummaryMetric \<Rightarrow> rat \<Rightarrow> SummaryMetric" where
  "SummaryObserve s v =
     s\<lparr>s_values := s_values s @ [v], s_sum := s_sum s + v, s_count := s_count s + 1\<rparr>"

definition SummaryCount :: "SummaryMetric \<Rightarrow> 64 word" where
  "SummaryCount s = s_count s"

definition SummarySum :: "SummaryMetric \<Rightarrow> rat" where
  "SummarySum s = s_sum s"

text \<open>
  The conversion \<^verbatim>\<open>int(x)\<close> of a \<^verbatim>\<open>float64\<close> discards the fraction (truncation towards
  zero). Outside the range of \<^verbatim>\<open>int\<close> Go leaves the result to the implementation; the
  model takes the amd64 result, the least \<^verbatim>\<open>int\<close>.
\<close>

definition float64_to_int :: "rat \<Rightarrow> int" where
  "float64_to_int x =
     (let t = (if 0 \<le> x then \<lfloor>x\<rfloor> else \<lceil>x\<rceil>)
      in if - (2 ^ 63) \<le> t \<and> t < 2 ^ 63 then t else - (2 ^ 63))"

text \<open>The index computed for quantile \<open>q\<close> over \<open>n\<close> sorted samples, after the clamp.\<close>

definition quantile_index :: "nat \<Rightarrow> rat \<Rightarrow> int" where
  "quantile_index n q =
     (let index = float64_to_int (q * of_nat n)
      in if index \<ge> int n then int n - 1 else index)"

text \<open>
  The loop \<^verbatim>\<open>for q := range s.quantiles\<close> of \<^verbatim>\<open>Quantiles\<close>; \<^verbatim>\<open>sortedValues[index]\<close> panics
  on a negative index (the clamp excludes an index beyond the end).
\<close>

fun quantiles_loop :: "rat list \<Rightarrow> (rat \<times> rat) list \<Rightarrow> (rat \<rightharpoonup> rat) \<Rightarrow> error + (rat \<rightharpoonup> rat)" where
  "quantiles_loop sortedValues [] quantiles = Inr quantiles"
| "quantiles_loop sortedValues ((q, tol) # rest) quantiles =
     (let index = quantile_index (length sortedValues) q
      in if 0 \<le> index \<and> index < int (length sortedValues)
         then quantiles_loop sortedValues rest (quantiles(q \<mapsto> sortedValues ! nat index))
         else Inl IndexOutOfRange)"

definition SummaryQuantiles :: "SummaryMetric \<Rightarrow> error + (rat \<rightharpoonup> rat)" where
  "SummaryQuantiles s =
     (if length (s_values s) = 0 then Inr Map.empty
      else quantiles_loop (sort (s_values s)) (s_quantiles s) Map.empty)"

definition SummaryReset :: "SummaryMetric \<Rightarrow> SummaryMetric" where
  "SummaryReset s = s\<lparr>s_values := take 0 (s_values s), s_sum := 0, s_count := 0\<rparr>"

fun SummaryObserveAll :: "SummaryMetric \<Rightarrow> rat list \<Rightarrow> SummaryMetric" where
  "SummaryObserveAll s [] = s"
| "SummaryObserveAll s (v # vs) = SummaryObserveAll (SummaryObserve s v) vs"

subsection \<open>The Metric interface and the store\<close>

text \<open>
  \<^verbatim>\<open>Metric\<close> is implemented by pointers to the four structs. The structs live in a store
  and a \<^verbatim>\<open>Metric\<close> value is the address of one of them. Go maps are reference values as
  well: the store holds the map objects, and a variable of map type holds an address.
  Addresses are positions in the two lists of the store, allocation appends, and an
  address beyond the end stands for \<^verbatim>\<open>nil\<close>.
\<close>

datatype MetricObj =
    CounterObj CounterMetric
  | GaugeObj GaugeMetric
  | HistogramObj HistogramMetric
  | SummaryObj SummaryMetric

fun Name :: "MetricObj \<Rightarrow> string" where
  "Name (CounterObj c) = c_name c"
| "Name (GaugeObj g) = g_name g"
| "Name (HistogramObj h) = h_name h"
| "Name (SummaryObj s) = s_name s"

fun Type :: "MetricObj \<Rightarrow> MetricType" where
  "Type (CounterObj c) = Counter"
| "Type (GaugeObj g) = Gauge"
| "Type (HistogramObj h) = Histogram"
| "Type (SummaryObj s) = Summary"

type_synonym addr = nat
type_synonym Metric = addr

record store =
  objs :: "MetricObj list"
  gomaps :: "(string \<rightharpoonup> Metric) list"

definition deref_obj :: "store \<Rightarrow> Metric \<Rightarrow> MetricObj option" where
  "deref_obj st m = (if m < length (objs st) then Some (objs st ! m) else None)"

definition deref_map :: "store \<Rightarrow> addr \<Rightarrow> (string \<rightharpoonup> Metric) option" where
  "deref_map st a = (if a < length (gomaps st) then Some (gomaps st ! a) else None)"

text \<open>Taking the address of a new struct, as the constructors do with \<^verbatim>\<open>&CounterMetric{...}\<close>.\<close>

definition new_metric :: "store \<Rightarrow> MetricObj \<Rightarrow> Metric \<times> store" where
  "new_metric st ob = (length (objs st), st\<lparr>objs := objs st @ [ob]\<rparr>)"

text \<open>\<^verbatim>\<open>m.Name()\<close> through the interface; \<open>None\<close> is the panic on a \<^verbatim>\<open>nil\<close> metric.\<close>

definition MetricName :: "store \<Rightarrow> Metric \<Rightarrow> string option" where
  "MetricName st m = map_option Name (deref_obj st m)"

text \<open>\<^verbatim>\<open>len\<close> of the map at an address (0 for a \<^verbatim>\<open>nil\<close> map).\<close>

definition map_len :: "store \<Rightarrow> addr \<Rightarrow> nat" where
  "map_len st a = (case deref_map st a of None \<Rightarrow> 0 | Some mp \<Rightarrow> card (dom mp))"

subsection \<open>Collector\<close>

text \<open>
  The field \<^verbatim>\<open>metrics\<close> of a \<^verbatim>\<open>Collector\<close> is assigned once, by \<^verbatim>\<open>NewCollector\<close>; every
  method works on the map it refers to.
\<close>

record Collector =
  metrics :: addr

definition NewCollector :: "store \<Rightarrow> Collector \<times> store" where
  "NewCollector st =
     (\<lparr>metrics = length (gomaps st)\<rparr>, st\<lparr>gomaps := gomaps st @ [Map.empty]\<rparr>)"

text \<open>
  \<^verbatim>\<open>Register\<close> evaluates \<^verbatim>\<open>m.Name()\<close>, looks the name up and stores \<open>m\<close> only when the name
  is absent. Reading a \<^verbatim>\<open>nil\<close> map finds nothing; the assignment that follows panics.
\<close>

definition Register :: "store \<Rightarrow> Collector \<Rightarrow> Metric \<Rightarrow> error + store" where
  "Register st c m =
     (case MetricName st m of
        None \<Rightarrow> Inl NilDereference
      | Some name \<Rightarrow>
          (case deref_map st (metrics c) of
             None \<Rightarrow> Inl NilMapAssignment
           | Some mp \<Rightarrow>
               (if mp name = None
                then Inr (st\<lparr>gomaps := (gomaps st)[metrics c := mp(name \<mapsto> m)]\<rparr>)
                else Inr st)))"

text \<open>\<^verbatim>\<open>Get\<close> returns the entry, \<^verbatim>\<open>nil\<close> (here \<open>None\<close>) when there is none.\<close>

definition Get :: "store \<Rightarrow> Collector \<Rightarrow> string \<Rightarrow> Metric option" where
  "Get st c name = (case deref_map st (metrics c) of None \<Rightarrow> None | Some mp \<Rightarrow> mp name)"

text \<open>
  \<^verbatim>\<open>Metrics\<close> makes a new map and assigns every entry of \<^verbatim>\<open>c.metrics\<close> to it; the result
  is the address of the new map.
\<close>

definition Metrics :: "store \<Rightarrow> Collector \<Rightarrow> addr \<times> store" where
  "Metrics st c =
     (let src = (case deref_map st (metrics c) of None \<Rightarrow> Map.empty | Some mp \<Rightarrow> mp);
          snapshot = (\<lambda>k. src k)
      in (length (gomaps st), st\<lparr>gomaps := gomaps st @ [snapshot]\<rparr>))"

text \<open>A sequence of \<^verbatim>\<open>Register\<close> calls on one collector; a panic ends it.\<close>

fun RegisterAll :: "store \<Rightarrow> Collector \<Rightarrow> Metric list \<Rightarrow> error + store" where
  "RegisterAll st c [] = Inr st"
| "RegisterAll st c (m # ms) =
     (case Register st c m of Inl e \<Rightarrow> Inl e | Inr st' \<Rightarrow> RegisterAll st' c ms)"

subsection \<open>StartReporter\<close>

text \<open>
  The goroutine of \<^verbatim>\<open>StartReporter\<close> selects between the ticker and the stop channel.
  The model runs its loop over the sequence of events it receives and yields, in order,
  the argument of every \<^verbatim>\<open>reporter.Report\<close> call: the value of the expression
  \<^verbatim>\<open>globalCollector.metrics\<close>, read from the package variable \<^verbatim>\<open>globalCollector\<close>, which
  is the first parameter here. Without a further event the goroutine blocks.
\<close>

datatype event = Tick | Stop

fun StartReporter :: "Collector \<Rightarrow> event list \<Rightarrow> addr list" where
  "StartReporter globalCollector [] = []"
| "StartReporter globalCollector (Tick # events) =
     metrics globalCollector # StartReporter globalCollector events"
| "StartReporter globalCollector (Stop # events) = []"

section \<open>Properties\<close>

subsection \<open>Reset\<close>

text \<open>
  Claim C6. Whatever state a Counter is in, after \<^verbatim>\<open>Reset()\<close> its \<^verbatim>\<open>Value()\<close> is 0; whatever
  state a Summary is in, after \<^verbatim>\<open>Reset()\<close> its \<^verbatim>\<open>Count()\<close> is 0, its \<^verbatim>\<open>Sum()\<close> is 0, no sample
  is retained, and \<^verbatim>\<open>Quantiles()\<close> returns the empty mapping.
\<close>

theorem reset_clears:
  "CounterValue (CounterReset c) = 0
   \<and> SummaryCount (SummaryReset s) = 0
   \<and> SummarySum (SummaryReset s) = 0
   \<and> SummaryValue (SummaryReset s) = []
   \<and> SummaryQuantiles (SummaryReset s) = Inr Map.empty"
  by (simp add: CounterValue_def CounterReset_def SummaryCount_def SummarySum_def
      SummaryValue_def SummaryQuantiles_def SummaryReset_def)

subsection \<open>Histogram: the bucket loop\<close>










subsection \<open>Histogram without boundaries\<close>

text \<open>
  \<^verbatim>\<open>Observe\<close> tests \<^verbatim>\<open>len(h.buckets) == 0\<close> before it touches the count and the sum. On a
  histogram without boundaries, observing 1 leaves the count at 0 and the sum at 0.
\<close>

theorem empty_histogram_observe_counterexample:
  "HistogramObserve (NewHistogram ''empty'' []) 1 = Inr (NewHistogram ''empty'' [])
   \<and> HistogramCount (NewHistogram ''empty'' []) = 0
   \<and> HistogramSum (NewHistogram ''empty'' []) = 0"
  by (simp add: HistogramObserve_def NewHistogram_def HistogramCount_def HistogramSum_def)

lemma HistogramObserveAll_empty:
  "h_buckets h = [] \<Longrightarrow> HistogramObserveAll h vs = Inr h"
  by (induction vs) (simp_all add: HistogramObserve_def)

text \<open>
  Claim C3, amended. For a Histogram constructed with an empty boundary sequence every
  \<^verbatim>\<open>Observe(value)\<close> call returns at once: no bucket is updated and the count and the sum
  stay as they are, so after any number of observations the histogram is the one the
  constructor returned, with count 0 and sum 0.
\<close>

theorem empty_histogram_observe_noop:
  "HistogramObserve (NewHistogram name []) v = Inr (NewHistogram name [])
   \<and> HistogramObserveAll (NewHistogram name []) vs = Inr (NewHistogram name [])
   \<and> HistogramValue (NewHistogram name []) = []
   \<and> HistogramCount (NewHistogram name []) = 0
   \<and> HistogramSum (NewHistogram name []) = 0"
proof -
  have "h_buckets (NewHistogram name []) = []" by (simp add: NewHistogram_def)
  from HistogramObserveAll_empty [OF this] show ?thesis
    by (simp add: HistogramObserve_def NewHistogram_def HistogramCount_def HistogramSum_def
        HistogramValue_def)
qed

subsection \<open>Summary: quantiles\<close>


text \<open>
  The loop over the configured quantiles panics when some index is negative; otherwise it
  maps every configured quantile to the sample at its index. The tolerances are not read.
\<close>

lemma quantiles_loop_char:
  "quantiles_loop sv qs acc =
     (if \<forall>q\<in>fst ` set qs. 0 \<le> quantile_index (length sv) q \<and> quantile_index (length sv) q < int (length sv)
      then Inr (\<lambda>k. if k \<in> fst ` set qs then Some (sv ! nat (quantile_index (length sv) k)) else acc k)
      else Inl IndexOutOfRange)"
proof (induction qs arbitrary: acc)
  case Nil
  then show ?case by simp
next
  case (Cons p qs)
  obtain q tol where p: "p = (q, tol)" by (cases p)
  show ?case
  proof (cases "0 \<le> quantile_index (length sv) q \<and> quantile_index (length sv) q < int (length sv)")
    case False
    then show ?thesis by (auto simp: p)
  next
    case True
    then have "quantiles_loop sv (p # qs) acc =
       quantiles_loop sv qs (acc(q \<mapsto> sv ! nat (quantile_index (length sv) q)))"
      by (simp add: p)
    also have "\<dots> = (if \<forall>q\<in>fst ` set qs. 0 \<le> quantile_index (length sv) q \<and> quantile_index (length sv) q < int (length sv)
      then Inr (\<lambda>k. if k \<in> fst ` set qs then Some (sv ! nat (quantile_index (length sv) k))
                else (acc(q \<mapsto> sv ! nat (quantile_index (length sv) q))) k)
      else Inl IndexOutOfRange)"
      by (rule Cons.IH)
    also have "\<dots> = (if \<forall>q\<in>fst ` set (p # qs). 0 \<le> quantile_index (length sv) q \<and> quantile_index (length sv) q < int (length sv)
      then Inr (\<lambda>k. if k \<in> fst ` set (p # qs) then Some (sv ! nat (quantile_index (length sv) k)) else acc k)
      else Inl IndexOutOfRange)"
      using True by (auto simp: p intro!: ext)
    finally show ?thesis .
  qed
qed



lemma SummaryObserveAll_fields:
  "s_values (SummaryObserveAll s vs) = s_values s @ vs
   \<and> s_quantiles (SummaryObserveAll s vs) = s_quantiles s
   \<and> s_name (SummaryObserveAll s vs) = s_name s"
  by (induction vs arbitrary: s) (simp_all add: SummaryObserve_def)



text \<open>
  Claim C8. Two Summaries constructed with configurations that have the same quantile
  keys, whatever their tolerance values (and names, and order of the keys), and fed the
  same observations, return the same result from \<^verbatim>\<open>Quantiles()\<close>.
\<close>

theorem quantiles_ignore_tolerance:
  assumes "fst ` set quantiles1 = fst ` set quantiles2"
  shows "SummaryQuantiles (SummaryObserveAll (NewSummary name1 quantiles1) vs)
       = SummaryQuantiles (SummaryObserveAll (NewSummary name2 quantiles2) vs)"
proof -
  let ?s1 = "SummaryObserveAll (NewSummary name1 quantiles1) vs"
  let ?s2 = "SummaryObserveAll (NewSummary name2 quantiles2) vs"
  have fields: "s_values ?s1 = vs" "s_values ?s2 = vs"
    "s_quantiles ?s1 = quantiles1" "s_quantiles ?s2 = quantiles2"
    by (simp_all add: SummaryObserveAll_fields NewSummary_def)
  have "quantiles_loop (sort vs) quantiles1 Map.empty
      = quantiles_loop (sort vs) quantiles2 Map.empty"
    unfolding quantiles_loop_char assms by (rule refl)
  then show ?thesis unfolding SummaryQuantiles_def fields by simp
qed

text \<open>
  The theorem at the targets 0.5 and 0.9 with two different sets of tolerances.
\<close>

theorem quantiles_ignore_tolerance_witness:
  "SummaryQuantiles (SummaryObserveAll (NewSummary ''a'' [(0.5, 0.05), (0.9, 0.01)]) [5, 3, 1, 4, 2])
   = SummaryQuantiles (SummaryObserveAll (NewSummary ''b'' [(0.9, 0.3), (0.5, 0)]) [5, 3, 1, 4, 2])"
proof -
  have "fst ` set [(0.5, 0.05), (0.9, 0.01 :: rat)] = fst ` set [(0.9, 0.3), (0.5 :: rat, 0 :: rat)]"
    by auto
  from quantiles_ignore_tolerance [OF this] show ?thesis .
qed

subsection \<open>Collector: registration\<close>

lemma Register_step:
  assumes "deref_map st (metrics c) = Some mp" and "MetricName st m = Some n"
  shows "\<exists>st'. Register st c m = Inr st' \<and> objs st' = objs st
      \<and> length (gomaps st') = length (gomaps st)
      \<and> deref_map st' (metrics c) = Some (if mp n = None then mp(n \<mapsto> m) else mp)
      \<and> (\<forall>a. a \<noteq> metrics c \<longrightarrow> deref_map st' a = deref_map st a)"
  using assms by (auto simp: Register_def deref_map_def split: if_splits)

lemma Register_present:
  assumes "MetricName st m = Some n" and "Get st c n = Some first"
  shows "Register st c m = Inr st"
  using assms by (auto simp: Register_def Get_def split: option.splits)

lemma MetricName_objs: "objs st' = objs st \<Longrightarrow> MetricName st' m = MetricName st m"
  by (simp add: MetricName_def deref_obj_def)

text \<open>
  After registering \<open>ms\<close> in order, a name is bound to what it was bound to before or,
  if it was free, to the first metric of \<open>ms\<close> that has this name.
\<close>

lemma RegisterAll_char:
  assumes "deref_map st (metrics c) = Some mp"
    and "\<forall>m\<in>set ms. MetricName st m \<noteq> None"
  shows "\<exists>st'. RegisterAll st c ms = Inr st' \<and> objs st' = objs st
      \<and> length (gomaps st') = length (gomaps st)
      \<and> deref_map st' (metrics c) =
          Some (\<lambda>n. case mp n of Some x \<Rightarrow> Some x
                     | None \<Rightarrow> find (\<lambda>m. MetricName st m = Some n) ms)
      \<and> (\<forall>a. a \<noteq> metrics c \<longrightarrow> deref_map st' a = deref_map st a)"
  using assms
proof (induction ms arbitrary: st mp)
  case Nil
  then show ?case by (auto split: option.splits intro!: ext)
next
  case (Cons m ms)
  from Cons.prems(2) obtain n where n: "MetricName st m = Some n" by auto
  from Register_step [OF Cons.prems(1) n] obtain st1 where
    st1: "Register st c m = Inr st1" "objs st1 = objs st"
      "length (gomaps st1) = length (gomaps st)"
      "deref_map st1 (metrics c) = Some (if mp n = None then mp(n \<mapsto> m) else mp)"
      "\<forall>a. a \<noteq> metrics c \<longrightarrow> deref_map st1 a = deref_map st a"
    by blast
  have names: "MetricName st1 = MetricName st"
    using MetricName_objs [OF st1(2)] by (intro ext)
  from Cons.prems(2) have all1: "\<forall>m\<in>set ms. MetricName st1 m \<noteq> None"
    by (simp add: names)
  from Cons.IH [OF st1(4) all1] obtain st' where
    st': "RegisterAll st1 c ms = Inr st'" "objs st' = objs st1"
      "length (gomaps st') = length (gomaps st1)"
      "deref_map st' (metrics c) =
          Some (\<lambda>k. case (if mp n = None then mp(n \<mapsto> m) else mp) k of Some x \<Rightarrow> Some x
                     | None \<Rightarrow> find (\<lambda>m. MetricName st1 m = Some k) ms)"
      "\<forall>a. a \<noteq> metrics c \<longrightarrow> deref_map st' a = deref_map st1 a"
    by blast
  have "(\<lambda>k. case (if mp n = None then mp(n \<mapsto> m) else mp) k of Some x \<Rightarrow> Some x
                     | None \<Rightarrow> find (\<lambda>m. MetricName st1 m = Some k) ms)
      = (\<lambda>k. case mp k of Some x \<Rightarrow> Some x
                     | None \<Rightarrow> find (\<lambda>m. MetricName st m = Some k) (m # ms))"
    using n by (auto simp: names split: option.splits intro!: ext)
  with st' st1 show ?case by simp
qed

lemma NewCollector_fresh:
  assumes "NewCollector st0 = (c, st1)"
  shows "deref_map st1 (metrics c) = Some Map.empty" and "objs st1 = objs st0"
    and "metrics c = length (gomaps st0)"
  using assms by (auto simp: NewCollector_def deref_map_def)

lemma registered_content:
  assumes "NewCollector st0 = (c, st1)"
    and "\<forall>m\<in>set ms. MetricName st1 m \<noteq> None"
  shows "\<exists>st. RegisterAll st1 c ms = Inr st \<and> objs st = objs st1
      \<and> length (gomaps st) = length (gomaps st1)
      \<and> deref_map st (metrics c) = Some (\<lambda>n. find (\<lambda>m. MetricName st1 m = Some n) ms)"
proof -
  from RegisterAll_char [OF NewCollector_fresh(1) [OF assms(1)] assms(2)]
  show ?thesis by auto
qed

text \<open>
  Claim C5. Take a registry made by \<^verbatim>\<open>NewCollector\<close> and any sequence \<open>ms\<close> of metrics
  registered into it, and a metric \<open>m\<close> whose name is the name of one of them. All the
  registrations return; \<^verbatim>\<open>Get\<close> of that name yields the first metric of \<open>ms\<close> with the name;
  and \<^verbatim>\<open>Register(m)\<close> returns without failure and leaves the whole store, hence the registry
  and the result of \<^verbatim>\<open>Get\<close>, as it was.
\<close>

theorem register_first_wins:
  assumes "NewCollector st0 = (c, st1)"
    and "\<forall>m'\<in>set ms. MetricName st1 m' \<noteq> None"
    and "MetricName st1 m = Some name"
    and "name \<in> the ` MetricName st1 ` set ms"
  shows "\<exists>st first. RegisterAll st1 c ms = Inr st
           \<and> find (\<lambda>m'. MetricName st1 m' = Some name) ms = Some first
           \<and> Get st c name = Some first
           \<and> Register st c m = Inr st"
proof -
  from registered_content [OF assms(1,2)] obtain st where
    st: "RegisterAll st1 c ms = Inr st" "objs st = objs st1"
      "deref_map st (metrics c) = Some (\<lambda>n. find (\<lambda>m. MetricName st1 m = Some n) ms)"
    by blast
  from assms(4) obtain m0 where m0: "m0 \<in> set ms" "name = the (MetricName st1 m0)" by blast
  from assms(2) m0(1) have "MetricName st1 m0 \<noteq> None" by blast
  with m0(2) have "MetricName st1 m0 = Some name" by simp
  with m0(1) have "find (\<lambda>m'. MetricName st1 m' = Some name) ms \<noteq> None"
    unfolding find_None_iff by blast
  then obtain first where
    first: "find (\<lambda>m'. MetricName st1 m' = Some name) ms = Some first"
    by blast
  from st(3) first have get: "Get st c name = Some first" by (simp add: Get_def)
  from assms(3) have "MetricName st m = Some name"
    by (simp add: MetricName_objs [OF st(2)])
  from Register_present [OF this get] have "Register st c m = Inr st" .
  with st(1) first get show ?thesis by (intro exI conjI)
qed

text \<open>
  The theorem on a store with two counters named hits and a gauge named load: after
  registering the first counter and the gauge, \<^verbatim>\<open>Get\<close> of hits is the first counter, and
  registering the second counter changes nothing.
\<close>

theorem register_first_wins_witness:
  "\<exists>st. RegisterAll
          \<lparr>objs = [CounterObj (NewCounter ''hits''), GaugeObj (NewGauge ''load''),
                   CounterObj (NewCounter ''hits'')], gomaps = [Map.empty]\<rparr>
          \<lparr>metrics = 0\<rparr> [0, 1] = Inr st
     \<and> Get st \<lparr>metrics = 0\<rparr> ''hits'' = Some 0
     \<and> Register st \<lparr>metrics = 0\<rparr> 2 = Inr st"
proof -
  let ?objs = "[CounterObj (NewCounter ''hits''), GaugeObj (NewGauge ''load''),
                CounterObj (NewCounter ''hits'')]"
  let ?init = "\<lparr>objs = ?objs, gomaps = []\<rparr>"
  let ?fresh = "\<lparr>objs = ?objs, gomaps = [Map.empty]\<rparr>"
  let ?c = "\<lparr>metrics = 0\<rparr>"
  have new: "NewCollector ?init = (?c, ?fresh)" by (simp add: NewCollector_def)
  have alloc: "\<forall>m'\<in>set [0, 1]. MetricName ?fresh m' \<noteq> None"
    by (simp add: MetricName_def deref_obj_def)
  have name: "MetricName ?fresh 2 = Some ''hits''"
    by (simp add: MetricName_def deref_obj_def NewCounter_def)
  have present: "''hits'' \<in> the ` MetricName ?fresh ` set [0, 1]"
    by (simp add: MetricName_def deref_obj_def NewCounter_def)
  from register_first_wins [OF new alloc name present] obtain st first where
    r: "RegisterAll ?fresh ?c [0, 1] = Inr st"
      "find (\<lambda>m'. MetricName ?fresh m' = Some ''hits'') [0, 1] = Some first"
      "Get st ?c ''hits'' = Some first" "Register st ?c 2 = Inr st"
    by blast
  from r(2) have "first = 0" by (simp add: MetricName_def deref_obj_def NewCounter_def)
  with r show ?thesis by blast
qed

subsection \<open>Collector: snapshots\<close>

lemma Metrics_snapshot:
  assumes "deref_map st (metrics c) = Some mp" and "Metrics st c = (snap, st')"
  shows "snap = length (gomaps st)" and "snap \<noteq> metrics c"
    and "deref_map st' snap = Some mp" and "deref_map st' (metrics c) = Some mp"
    and "objs st' = objs st"
  using assms by (auto simp: Metrics_def deref_map_def nth_append split: if_splits)

lemma dom_find_names:
  assumes "\<forall>m\<in>set ms. MetricName st m \<noteq> None"
  shows "dom (\<lambda>n. find (\<lambda>m. MetricName st m = Some n) ms) = the ` MetricName st ` set ms"
proof (intro set_eqI iffI)
  fix n assume "n \<in> dom (\<lambda>n. find (\<lambda>m. MetricName st m = Some n) ms)"
  then have "find (\<lambda>m. MetricName st m = Some n) ms \<noteq> None" by auto
  then obtain m where "m \<in> set ms" "MetricName st m = Some n"
    by (auto simp: find_None_iff)
  then show "n \<in> the ` MetricName st ` set ms" by force
next
  fix n assume "n \<in> the ` MetricName st ` set ms"
  with assms obtain m where "m \<in> set ms" "MetricName st m = Some n" by force
  then have "find (\<lambda>m. MetricName st m = Some n) ms \<noteq> None"
    by (auto simp: find_None_iff)
  then show "n \<in> dom (\<lambda>n. find (\<lambda>m. MetricName st m = Some n) ms)" by auto
qed

text \<open>
  Claim C7. Take a registry made by \<^verbatim>\<open>NewCollector\<close>, metrics \<open>ms\<close> registered into it in any
  order, and one more metric \<open>m\<close>. The registrations return. \<^verbatim>\<open>Metrics()\<close> then returns a
  map other than the registry's own, which binds the same names to the same metric
  references as the registry's map, whose keys are the names of \<open>ms\<close> and whose size is the
  number of distinct names among \<open>ms\<close> (a function of the set of registered metrics, not
  of their order), and it changes no metric object. \<^verbatim>\<open>Register(m)\<close> made afterwards returns
  and has the name of \<open>m\<close> in the registry, and the map that \<^verbatim>\<open>Metrics()\<close> returned is as
  it was.
\<close>

theorem metrics_snapshot_independent:
  assumes "NewCollector st0 = (c, st1)"
    and "\<forall>m'\<in>set ms. MetricName st1 m' \<noteq> None"
    and "MetricName st1 m = Some n"
  shows "\<exists>st snap st' st'' content.
           RegisterAll st1 c ms = Inr st
         \<and> Metrics st c = (snap, st')
         \<and> Register st' c m = Inr st''
         \<and> snap \<noteq> metrics c
         \<and> deref_map st (metrics c) = Some content
         \<and> deref_map st' snap = Some content
         \<and> dom content = the ` MetricName st1 ` set ms
         \<and> map_len st' snap = card (the ` MetricName st1 ` set ms)
         \<and> objs st' = objs st
         \<and> deref_map st'' snap = Some content
         \<and> Get st'' c n \<noteq> None"
proof -
  let ?mp = "\<lambda>n. find (\<lambda>m. MetricName st1 m = Some n) ms"
  from registered_content [OF assms(1,2)] obtain st where
    reg: "RegisterAll st1 c ms = Inr st" and ob: "objs st = objs st1"
    and live: "deref_map st (metrics c) = Some ?mp"
    by blast
  obtain snap st' where m: "Metrics st c = (snap, st')" by (cases "Metrics st c")
  note snap = Metrics_snapshot [OF live m]
  have dom: "dom ?mp = the ` MetricName st1 ` set ms"
    by (rule dom_find_names [OF assms(2)])
  have len: "map_len st' snap = card (the ` MetricName st1 ` set ms)"
    using snap(3) dom by (simp add: map_len_def)
  have "MetricName st' m = MetricName st1 m"
    using snap(5) ob by (simp add: MetricName_def deref_obj_def)
  with assms(3) have n: "MetricName st' m = Some n" by simp
  from Register_step [OF snap(4) n] obtain st'' where
    later: "Register st' c m = Inr st''"
    and live': "deref_map st'' (metrics c) = Some (if ?mp n = None then ?mp(n \<mapsto> m) else ?mp)"
    and other: "\<forall>a. a \<noteq> metrics c \<longrightarrow> deref_map st'' a = deref_map st' a"
    by blast
  from other snap(2,3) have kept: "deref_map st'' snap = Some ?mp" by simp
  from live' have got: "Get st'' c n \<noteq> None" by (auto simp: Get_def)
  from reg m later snap(2) live snap(3) dom len snap(5) kept got
  show ?thesis by blast
qed

text \<open>
  The theorem on a registry holding the counter hits: the snapshot is a second map with
  one entry, and it still has that one key after the gauge load is registered, which
  the registry then holds.
\<close>

theorem metrics_snapshot_independent_witness:
  "Metrics \<lparr>objs = [CounterObj (NewCounter ''hits''), GaugeObj (NewGauge ''load'')],
            gomaps = [[''hits'' \<mapsto> 0]]\<rparr> \<lparr>metrics = 0\<rparr>
     = (1, \<lparr>objs = [CounterObj (NewCounter ''hits''), GaugeObj (NewGauge ''load'')],
            gomaps = [[''hits'' \<mapsto> 0], [''hits'' \<mapsto> 0]]\<rparr>)
   \<and> map_len \<lparr>objs = [CounterObj (NewCounter ''hits''), GaugeObj (NewGauge ''load'')],
            gomaps = [[''hits'' \<mapsto> 0], [''hits'' \<mapsto> 0]]\<rparr> 1 = 1
   \<and> Register \<lparr>objs = [CounterObj (NewCounter ''hits''), GaugeObj (NewGauge ''load'')],
            gomaps = [[''hits'' \<mapsto> 0], [''hits'' \<mapsto> 0]]\<rparr> \<lparr>metrics = 0\<rparr> 1
       = Inr \<lparr>objs = [CounterObj (NewCounter ''hits''), GaugeObj (NewGauge ''load'')],
            gomaps = [[''hits'' \<mapsto> 0, ''load'' \<mapsto> 1], [''hits'' \<mapsto> 0]]\<rparr>
   \<and> (\<exists>content. deref_map \<lparr>objs = [CounterObj (NewCounter ''hits''), GaugeObj (NewGauge ''load'')],
            gomaps = [[''hits'' \<mapsto> 0, ''load'' \<mapsto> 1], [''hits'' \<mapsto> 0]]\<rparr> 1 = Some content
        \<and> dom content = {''hits''})
   \<and> Get \<lparr>objs = [CounterObj (NewCounter ''hits''), GaugeObj (NewGauge ''load'')],
            gomaps = [[''hits'' \<mapsto> 0, ''load'' \<mapsto> 1], [''hits'' \<mapsto> 0]]\<rparr> \<lparr>metrics = 0\<rparr> ''load''
       \<noteq> None"
proof -
  let ?objs = "[CounterObj (NewCounter ''hits''), GaugeObj (NewGauge ''load'')]"
  let ?init = "\<lparr>objs = ?objs, gomaps = []\<rparr>"
  let ?fresh = "\<lparr>objs = ?objs, gomaps = [Map.empty]\<rparr>"
  let ?reg = "\<lparr>objs = ?objs, gomaps = [[''hits'' \<mapsto> 0]]\<rparr>"
  let ?snapped = "\<lparr>objs = ?objs, gomaps = [[''hits'' \<mapsto> 0], [''hits'' \<mapsto> 0]]\<rparr>"
  let ?later = "\<lparr>objs = ?objs, gomaps = [[''hits'' \<mapsto> 0, ''load'' \<mapsto> 1], [''hits'' \<mapsto> 0]]\<rparr>"
  let ?c = "\<lparr>metrics = 0\<rparr>"
  have new: "NewCollector ?init = (?c, ?fresh)" by (simp add: NewCollector_def)
  have alloc: "\<forall>m'\<in>set [0]. MetricName ?fresh m' \<noteq> None"
    by (simp add: MetricName_def deref_obj_def)
  have name: "MetricName ?fresh 1 = Some ''load''"
    by (simp add: MetricName_def deref_obj_def NewGauge_def)
  have names: "the ` MetricName ?fresh ` set [0] = {''hits''}"
    by (simp add: MetricName_def deref_obj_def NewCounter_def)
  have reg: "RegisterAll ?fresh ?c [0] = Inr ?reg"
    by (simp add: Register_def MetricName_def deref_obj_def deref_map_def NewCounter_def)
  have snap: "Metrics ?reg ?c = (1, ?snapped)"
    by (simp add: Metrics_def deref_map_def)
  have later: "Register ?snapped ?c 1 = Inr ?later"
    by (simp add: Register_def MetricName_def deref_obj_def deref_map_def NewGauge_def)
  from metrics_snapshot_independent [OF new alloc name]
  obtain st sn st' st'' content where
    r: "RegisterAll ?fresh ?c [0] = Inr st" "Metrics st ?c = (sn, st')"
      "Register st' ?c 1 = Inr st''"
      "dom content = the ` MetricName ?fresh ` set [0]"
      "map_len st' sn = card (the ` MetricName ?fresh ` set [0])"
      "deref_map st'' sn = Some content" "Get st'' ?c ''load'' \<noteq> None"
    by (elim exE conjE) (rule that)
  from r(1) reg have st: "st = ?reg" by simp
  from r(2) snap have sn: "sn = 1" "st' = ?snapped" by (simp_all add: st)
  from r(3) later have st'': "st'' = ?later" by (simp add: sn)
  from r(5) have "map_len st' sn = card {''hits''}" unfolding names .
  then have len: "map_len ?snapped 1 = 1" by (simp add: sn)
  from r(4) have "dom content = {''hits''}" unfolding names .
  with r(6) have kept: "\<exists>content. deref_map ?later 1 = Some content \<and> dom content = {''hits''}"
    by (simp add: sn st'')
  from r(7) have got: "Get ?later ?c ''load'' \<noteq> None" by (simp add: st'')
  from snap len later kept got show ?thesis by (intro conjI)
qed

subsection \<open>The reporter loop\<close>

text \<open>
  Claim C4. The claim has every tick call \<^verbatim>\<open>Metrics()\<close> and hand \<^verbatim>\<open>Report\<close> the copy it
  returns. The loop passes \<^verbatim>\<open>globalCollector.metrics\<close> instead. On a global registry (map
  at address 0) holding the counter hits, the tick hands \<^verbatim>\<open>Report\<close> address 0, the
  registry's own map, where \<^verbatim>\<open>Metrics()\<close> would have returned the new map at address 1;
  when the gauge load is registered afterwards, the map \<^verbatim>\<open>Report\<close> was handed holds load
  as well.
\<close>

theorem reporter_receives_live_map:
  "StartReporter \<lparr>metrics = 0\<rparr> [Tick, Stop] = [0]
   \<and> Get \<lparr>objs = [CounterObj (NewCounter ''hits''), GaugeObj (NewGauge ''load'')],
           gomaps = [[''hits'' \<mapsto> 0]]\<rparr> \<lparr>metrics = 0\<rparr> ''hits'' = Some 0
   \<and> deref_map \<lparr>objs = [CounterObj (NewCounter ''hits''), GaugeObj (NewGauge ''load'')],
           gomaps = [[''hits'' \<mapsto> 0]]\<rparr> 0 = Some [''hits'' \<mapsto> 0]
   \<and> fst (Metrics \<lparr>objs = [CounterObj (NewCounter ''hits''), GaugeObj (NewGauge ''load'')],
           gomaps = [[''hits'' \<mapsto> 0]]\<rparr> \<lparr>metrics = 0\<rparr>) = 1
   \<and> Register \<lparr>objs = [CounterObj (NewCounter ''hits''), GaugeObj (NewGauge ''load'')],
           gomaps = [[''hits'' \<mapsto> 0]]\<rparr> \<lparr>metrics = 0\<rparr> 1
       = Inr \<lparr>objs = [CounterObj (NewCounter ''hits''), GaugeObj (NewGauge ''load'')],
           gomaps = [[''hits'' \<mapsto> 0, ''load'' \<mapsto> 1]]\<rparr>
   \<and> deref_map \<lparr>objs = [CounterObj (NewCounter ''hits''), GaugeObj (NewGauge ''load'')],
           gomaps = [[''hits'' \<mapsto> 0, ''load'' \<mapsto> 1]]\<rparr> 0
       = Some [''hits'' \<mapsto> 0, ''load'' \<mapsto> 1]"
  by (simp add: Get_def deref_map_def Metrics_def Register_def MetricName_def deref_obj_def
      NewGauge_def)

end
